theory Spec2Isabelle
  imports Main
begin

section \<open>Task manager (backend/utils/task\_manager.py)\<close>

text \<open>
  The task manager keeps everything in Redis. The model keeps the four kinds of keys it
  uses as four fields of a state record: the task documents (\<open>task:<id>\<close>), the
  per-user sets (\<open>user_tasks:<user>\<close>), the set \<open>active_tasks\<close> and the four lists
  \<open>task_queue:<tier>\<close>. A fifth field keeps the one setting of the client handed to
  \<open>initialize\<close> that the code depends on: with \<open>decode_responses\<close> the client answers
  with \<open>str\<close>, without it with \<open>bytes\<close>. \<open>json.dumps\<close> followed by \<open>json.loads\<close> is
  taken as the identity, the store is taken as reachable (no Redis exception), and the 24 hour expiry
  of a key is outside the model. \<open>datetime.now().isoformat()\<close> is the parameter
  \<open>now\<close> of each operation, \<open>uuid.uuid4()\<close> the parameter \<open>uuid\<close> of \<open>create_task\<close>.
\<close>

datatype TaskPriority = LOW | MEDIUM | HIGH | CRITICAL

fun priority_value :: "TaskPriority \<Rightarrow> int" where
  "priority_value LOW = 1"
| "priority_value MEDIUM = 2"
| "priority_value HIGH = 3"
| "priority_value CRITICAL = 4"

text \<open>\<open>TaskPriority(n)\<close>: the member with value \<open>n\<close>; Python raises ValueError (here
  \<open>None\<close>) when there is none.\<close>

definition TaskPriority_of :: "int \<Rightarrow> TaskPriority option" where
  "TaskPriority_of n =
     (if n = 1 then Some LOW else if n = 2 then Some MEDIUM
      else if n = 3 then Some HIGH else if n = 4 then Some CRITICAL else None)"

text \<open>The values of the enumeration \<open>TaskStatus\<close>; a task document stores the string.\<close>

definition PENDING :: string where "PENDING = ''pending''"
definition RUNNING :: string where "RUNNING = ''running''"
definition COMPLETED :: string where "COMPLETED = ''completed''"
definition FAILED :: string where "FAILED = ''failed''"
definition CANCELLED :: string where "CANCELLED = ''cancelled''"

text \<open>The task document \<open>task_data\<close>. \<open>None\<close> is Python's \<open>None\<close> (JSON null); the
  payloads \<open>parameters\<close> and \<open>result\<close> are values of an arbitrary type \<open>'v\<close>.\<close>

record 'v task_data =
  task_id :: string
  task_type :: string
  user_id :: string
  parameters :: 'v
  status :: string
  priority :: int
  max_retries :: int
  retry_count :: int
  timeout_seconds :: int
  created_at :: string
  updated_at :: string
  started_at :: "string option"
  completed_at :: "string option"
  result :: "'v option"
  error :: "string option"
  progress :: int

record 'v task_manager =
  initialized :: bool
  decode_responses :: bool
  tasks :: "string \<rightharpoonup> 'v task_data"
  user_tasks :: "string \<Rightarrow> string set"
  active_tasks :: "string set"
  task_queue :: "TaskPriority \<Rightarrow> string list"

text \<open>Exceptions that leave a function. \<open>HTTPException\<close> carries the status code and
  the detail text.\<close>

datatype exn = RuntimeError string | HTTPException int string

definition not_initialized :: exn where
  "not_initialized = RuntimeError ''Task Manager not initialized''"

text \<open>The manager of the application (backend/main.py) after its start on an empty store:
  \<open>initialize\<close> was called with \<open>redis.Redis(..., decode_responses=True)\<close>.\<close>

definition init_tm :: "'v task_manager" where
  "init_tm = \<lparr> initialized = True, decode_responses = True, tasks = Map.empty,
               user_tasks = (\<lambda>_. {}), active_tasks = {}, task_queue = (\<lambda>_. []) \<rparr>"

text \<open>Redis lists: \<open>LPUSH\<close> adds at the head, \<open>RPOP\<close> takes from the tail (nothing from
  an empty or missing list).\<close>

definition lpush :: "'a list \<Rightarrow> 'a \<Rightarrow> 'a list" where
  "lpush xs x = x # xs"

definition rpop :: "'a list \<Rightarrow> ('a \<times> 'a list) option" where
  "rpop xs = (if xs = [] then None else Some (last xs, butlast xs))"

text \<open>Every operation returns its outcome (the exception raised, or the value returned)
  together with the store it leaves.\<close>

definition create_task ::
  "'v task_manager \<Rightarrow> string \<Rightarrow> string \<Rightarrow> string \<Rightarrow> string \<Rightarrow> 'v \<Rightarrow> TaskPriority \<Rightarrow> int \<Rightarrow> int
     \<Rightarrow> (exn + string) \<times> 'v task_manager" where
  "create_task tm uuid now task_type' user_id' parameters' priority' max_retries' timeout_seconds' =
     (if \<not> initialized tm then (Inl not_initialized, tm)
      else
        let task_data = \<lparr> task_id = uuid, task_type = task_type', user_id = user_id',
              parameters = parameters', status = PENDING, priority = priority_value priority',
              max_retries = max_retries', retry_count = 0, timeout_seconds = timeout_seconds',
              created_at = now, updated_at = now, started_at = None, completed_at = None,
              result = None, error = None, progress = 0 \<rparr>
        in (Inr uuid,
            tm\<lparr> tasks := (tasks tm)(uuid \<mapsto> task_data),
                user_tasks := (user_tasks tm)(user_id' := insert uuid (user_tasks tm user_id')),
                active_tasks := insert uuid (active_tasks tm),
                task_queue := (task_queue tm)(priority' := lpush (task_queue tm priority') uuid) \<rparr>))"

definition get_task_status ::
  "'v task_manager \<Rightarrow> string \<Rightarrow> exn + 'v task_data option" where
  "get_task_status tm task_id' =
     (if \<not> initialized tm then Inl not_initialized else Inr (tasks tm task_id'))"

text \<open>\<open>not current_data.get("started_at")\<close>: true for \<open>None\<close> and for the empty string.\<close>

definition falsy :: "string option \<Rightarrow> bool" where
  "falsy v = (case v of None \<Rightarrow> True | Some s \<Rightarrow> s = [])"

definition update_task_status ::
  "'v task_manager \<Rightarrow> string \<Rightarrow> string \<Rightarrow> string \<Rightarrow> int option \<Rightarrow> string option \<Rightarrow> 'v option
     \<Rightarrow> (exn + unit) \<times> 'v task_manager" where
  "update_task_status tm now task_id' status' progress' error' result' =
     (if \<not> initialized tm then (Inl not_initialized, tm)
      else case tasks tm task_id' of
        None \<Rightarrow> (Inr (), tm)
      | Some current_data \<Rightarrow>
          let d1 = current_data\<lparr> status := status', updated_at := now \<rparr>;
              d2 = (case progress' of None \<Rightarrow> d1 | Some p \<Rightarrow> d1\<lparr> progress := p \<rparr>);
              d3 = (case error' of None \<Rightarrow> d2 | Some e \<Rightarrow> d2\<lparr> error := Some e \<rparr>);
              d4 = (case result' of None \<Rightarrow> d3 | Some r \<Rightarrow> d3\<lparr> result := Some r \<rparr>);
              d5 = (if status' = RUNNING \<and> falsy (started_at d4)
                    then d4\<lparr> started_at := Some now \<rparr> else d4);
              terminal = (status' \<in> set [COMPLETED, FAILED, CANCELLED]);
              d6 = (if terminal then d5\<lparr> completed_at := Some now \<rparr> else d5)
          in (Inr (),
              tm\<lparr> tasks := (tasks tm)(task_id' \<mapsto> d6),
                  active_tasks := (if terminal then active_tasks tm - {task_id'}
                                   else active_tasks tm) \<rparr>))"

definition complete_task ::
  "'v task_manager \<Rightarrow> string \<Rightarrow> string \<Rightarrow> 'v option \<Rightarrow> (exn + unit) \<times> 'v task_manager" where
  "complete_task tm now task_id' result' =
     update_task_status tm now task_id' COMPLETED (Some 100) None result'"

definition fail_task ::
  "'v task_manager \<Rightarrow> string \<Rightarrow> string \<Rightarrow> string \<Rightarrow> (exn + unit) \<times> 'v task_manager" where
  "fail_task tm now task_id' error' =
     update_task_status tm now task_id' FAILED None (Some error') None"

definition cancel_task ::
  "'v task_manager \<Rightarrow> string \<Rightarrow> string \<Rightarrow> string \<Rightarrow> (exn + unit) \<times> 'v task_manager" where
  "cancel_task tm now task_id' reason =
     update_task_status tm now task_id' CANCELLED None (Some reason) None"

text \<open>\<open>retry_task\<close> raises before its \<open>try\<close> when the manager is not initialized; inside
  the \<open>try\<close> the one exception the model can meet is the ValueError of
  \<open>TaskPriority(task_data["priority"])\<close>, raised after the document and the active set
  were written and answered with \<open>False\<close>.\<close>

definition retry_task ::
  "'v task_manager \<Rightarrow> string \<Rightarrow> string \<Rightarrow> (exn + bool) \<times> 'v task_manager" where
  "retry_task tm now task_id' =
     (if \<not> initialized tm then (Inl not_initialized, tm)
      else case tasks tm task_id' of
        None \<Rightarrow> (Inr False, tm)
      | Some task_data \<Rightarrow>
          if retry_count task_data \<ge> max_retries task_data then (Inr False, tm)
          else
            let task_data' = task_data\<lparr> retry_count := retry_count task_data + 1,
                  status := PENDING, updated_at := now, started_at := None,
                  completed_at := None, error := None, progress := 0 \<rparr>;
                tm1 = tm\<lparr> tasks := (tasks tm)(task_id' \<mapsto> task_data'),
                          active_tasks := insert task_id' (active_tasks tm) \<rparr>
            in case TaskPriority_of (priority task_data') of
                 None \<Rightarrow> (Inr False, tm1)
               | Some priority' \<Rightarrow>
                   (Inr True,
                    tm1\<lparr> task_queue :=
                      (task_queue tm1)(priority' := lpush (task_queue tm1 priority') task_id') \<rparr>))"

text \<open>\<open>get_next_task\<close>: \<open>if task_id:\<close> is false for the empty string too, which is popped
  and then answered with \<open>None\<close>. \<open>task_id.decode()\<close> gives the identifier when the client
  answered with \<open>bytes\<close>; a \<open>str\<close> has no \<open>decode\<close>, the AttributeError is caught by the
  function's \<open>except Exception\<close>, which logs it and returns \<open>None\<close>, after the pop.\<close>

definition get_next_task ::
  "'v task_manager \<Rightarrow> TaskPriority \<Rightarrow> string option \<times> 'v task_manager" where
  "get_next_task tm priority' =
     (if \<not> initialized tm then (None, tm)
      else case rpop (task_queue tm priority') of
        None \<Rightarrow> (None, tm)
      | Some (task_id', rest) \<Rightarrow>
          (if task_id' \<noteq> []
           then (if decode_responses tm then None else Some task_id')
           else None,
           tm\<lparr> task_queue := (task_queue tm)(priority' := rest) \<rparr>))"

subsection \<open>The route DELETE /tasks/\{task\_id\} (backend/main.py)\<close>

text \<open>The route's \<open>except HTTPException: raise\<close> passes its own rejections on; any other
  exception becomes a 500 whose detail is the exception's text.\<close>

fun route_exception :: "exn \<Rightarrow> exn" where
  "route_exception (HTTPException code detail) = HTTPException code detail"
| "route_exception (RuntimeError msg) = HTTPException 500 msg"

definition cancel_task_route ::
  "'v task_manager \<Rightarrow> string \<Rightarrow> string \<Rightarrow> string \<Rightarrow> (exn + string \<times> string) \<times> 'v task_manager" where
  "cancel_task_route tm now task_id' user_id' =
     (case get_task_status tm task_id' of
        Inl e \<Rightarrow> (Inl (route_exception e), tm)
      | Inr None \<Rightarrow> (Inl (HTTPException 404 ''Task not found''), tm)
      | Inr (Some task_status) \<Rightarrow>
          if user_id task_status \<noteq> user_id'
          then (Inl (HTTPException 403 ''Not authorized to cancel this task''), tm)
          else if status task_status \<in> set [''completed'', ''failed'', ''cancelled'']
          then (Inl (HTTPException 400 ''Task cannot be cancelled''), tm)
          else (case cancel_task tm now task_id' ''Cancelled by user'' of
                  (Inl e, tm') \<Rightarrow> (Inl (route_exception e), tm')
                | (Inr _, tm') \<Rightarrow> (Inr (''Task cancelled successfully'', task_id'), tm')))"

subsection \<open>Sequences of operations\<close>

text \<open>A caller's request to the task manager, with the clock reading (and, for a
  creation, the identifier drawn) at that moment. \<open>Update\<close> is a direct call of
  \<open>update_task_status\<close>: \<open>mark_running\<close> is \<open>Update now id ''running'' None None None\<close>,
  a progress report passes \<open>Some p\<close> as well.\<close>

datatype 'v op =
    Create string string string string 'v TaskPriority int int
  | Update string string string "int option" "string option" "'v option"
  | Complete string string "'v option"
  | Fail string string string
  | Cancel string string string
  | Retry string string
  | GetNext TaskPriority

fun step :: "'v task_manager \<Rightarrow> 'v op \<Rightarrow> 'v task_manager" where
  "step tm (Create uuid now ty u ps p mr ts) = snd (create_task tm uuid now ty u ps p mr ts)"
| "step tm (Update now tid st pr er rs) = snd (update_task_status tm now tid st pr er rs)"
| "step tm (Complete now tid rs) = snd (complete_task tm now tid rs)"
| "step tm (Fail now tid er) = snd (fail_task tm now tid er)"
| "step tm (Cancel now tid reason) = snd (cancel_task tm now tid reason)"
| "step tm (Retry now tid) = snd (retry_task tm now tid)"
| "step tm (GetNext p) = snd (get_next_task tm p)"

fun run :: "'v task_manager \<Rightarrow> 'v op list \<Rightarrow> 'v task_manager" where
  "run tm [] = tm"
| "run tm (x # xs) = run (step tm x) xs"

text \<open>The tier a stored task belongs to.\<close>

definition tier_of :: "'v task_manager \<Rightarrow> string \<Rightarrow> TaskPriority option" where
  "tier_of tm tid = (case tasks tm tid of None \<Rightarrow> None | Some t \<Rightarrow> TaskPriority_of (priority t))"

text \<open>What one request puts on tier \<open>q\<close> (a creation that returned an identifier, a retry
  that returned \<open>True\<close>) and what it hands out from tier \<open>q\<close> (the identifier
  \<open>get_next_task\<close> returned).\<close>

fun enqueued :: "TaskPriority \<Rightarrow> 'v task_manager \<Rightarrow> 'v op \<Rightarrow> string list" where
  "enqueued q tm (Create uuid now ty u ps p mr ts) =
     (case fst (create_task tm uuid now ty u ps p mr ts) of
        Inr tid \<Rightarrow> if p = q then [tid] else []
      | Inl _ \<Rightarrow> [])"
| "enqueued q tm (Retry now tid) =
     (if fst (retry_task tm now tid) = Inr True \<and> tier_of tm tid = Some q then [tid] else [])"
| "enqueued q tm _ = []"

fun dequeued :: "TaskPriority \<Rightarrow> 'v task_manager \<Rightarrow> 'v op \<Rightarrow> string list" where
  "dequeued q tm (GetNext p) =
     (case fst (get_next_task tm p) of
        Some tid \<Rightarrow> if p = q then [tid] else []
      | None \<Rightarrow> [])"
| "dequeued q tm _ = []"

fun enqueued_by :: "TaskPriority \<Rightarrow> 'v task_manager \<Rightarrow> 'v op list \<Rightarrow> string list" where
  "enqueued_by q tm [] = []"
| "enqueued_by q tm (x # xs) = enqueued q tm x @ enqueued_by q (step tm x) xs"

fun dequeued_by :: "TaskPriority \<Rightarrow> 'v task_manager \<Rightarrow> 'v op list \<Rightarrow> string list" where
  "dequeued_by q tm [] = []"
| "dequeued_by q tm (x # xs) = dequeued q tm x @ dequeued_by q (step tm x) xs"

text \<open>\<open>uuid.uuid4()\<close> renders as 36 characters, never as the empty string.\<close>

fun proper_id :: "'v op \<Rightarrow> bool" where
  "proper_id (Create uuid now ty u ps p mr ts) = (uuid \<noteq> [])"
| "proper_id _ = True"

fun sane_retries :: "'v op \<Rightarrow> bool" where
  "sane_retries (Create uuid now ty u ps p mr ts) = (0 \<le> mr)"
| "sane_retries _ = True"

section \<open>WebSocket manager (backend/utils/websocket\_manager.py)\<close>

text \<open>
  The three dictionaries of the manager, its \<open>asyncio.Lock\<close> and, as the trace of what
  the manager did to the outside, the channels it called \<open>close()\<close> on (oldest first).
  A channel is a value of an arbitrary type \<open>'ws\<close>.
\<close>

record metadata =
  connected_at :: string
  last_activity :: string
  message_count :: int

record 'ws websocket_manager =
  active_connections :: "string \<rightharpoonup> 'ws"
  subscriptions :: "string \<rightharpoonup> string set"
  connection_metadata :: "string \<rightharpoonup> metadata"
  locked :: bool
  closed :: "'ws list"

definition init_wm :: "'ws websocket_manager" where
  "init_wm = \<lparr> active_connections = Map.empty, subscriptions = Map.empty,
               connection_metadata = Map.empty, locked = False, closed = [] \<rparr>"

text \<open>
  \<open>asyncio.Lock\<close> is not reentrant and has no owner: \<open>acquire()\<close> on a free lock takes it
  and returns; on a taken lock the coroutine is suspended until somebody calls
  \<open>release()\<close>. A coroutine and everything it awaits is one chain of calls, modelled as
  a function whose value \<open>None\<close> means that the call does not return. Where a call finds
  the lock taken by its own caller, which is suspended on that very call, no \<open>release()\<close>
  can come, so \<open>acquire\<close> of a taken lock is \<open>None\<close>. A top-level call is modelled from
  the moment the lock is free for it.
\<close>

definition acquire :: "'ws websocket_manager \<Rightarrow> 'ws websocket_manager option" where
  "acquire wm = (if locked wm then None else Some (wm\<lparr> locked := True \<rparr>))"

definition release :: "'ws websocket_manager \<Rightarrow> 'ws websocket_manager" where
  "release wm = wm\<lparr> locked := False \<rparr>"

text \<open>\<open>disconnect\<close>: an exception of \<open>websocket.close()\<close> is caught and logged, so the
  call counts as made either way.\<close>

definition disconnect :: "'ws websocket_manager \<Rightarrow> string \<Rightarrow> 'ws websocket_manager option" where
  "disconnect wm user_id' =
     (case acquire wm of
        None \<Rightarrow> None
      | Some wm1 \<Rightarrow>
          Some (release
            (case active_connections wm1 user_id' of
               None \<Rightarrow> wm1
             | Some websocket \<Rightarrow>
                 wm1\<lparr> closed := closed wm1 @ [websocket],
                      active_connections := (active_connections wm1)(user_id' := None),
                      subscriptions := (subscriptions wm1)(user_id' := None),
                      connection_metadata := (connection_metadata wm1)(user_id' := None) \<rparr>)))"

definition connect ::
  "'ws websocket_manager \<Rightarrow> string \<Rightarrow> string \<Rightarrow> 'ws \<Rightarrow> 'ws websocket_manager option" where
  "connect wm now user_id' websocket =
     (case acquire wm of
        None \<Rightarrow> None
      | Some wm1 \<Rightarrow>
          (case (if user_id' \<in> dom (active_connections wm1) then disconnect wm1 user_id'
                 else Some wm1) of
             None \<Rightarrow> None
           | Some wm2 \<Rightarrow>
               Some (release
                 (wm2\<lparr> active_connections := (active_connections wm2)(user_id' \<mapsto> websocket),
                       subscriptions := (subscriptions wm2)(user_id' \<mapsto> {}),
                       connection_metadata := (connection_metadata wm2)(user_id' \<mapsto>
                         \<lparr> connected_at = now, last_activity = now, message_count = 0 \<rparr>) \<rparr>))))"

section \<open>Invariants and example stores\<close>

text \<open>No stored task has used more retries than it was granted.\<close>

definition retry_bounded :: "'v task_manager \<Rightarrow> bool" where
  "retry_bounded tm = (\<forall>tid t. tasks tm tid = Some t \<longrightarrow> retry_count t \<le> max_retries t)"

text \<open>The empty string is neither a stored identifier nor queued.\<close>

definition proper_ids :: "'v task_manager \<Rightarrow> bool" where
  "proper_ids tm = ([] \<notin> dom (tasks tm) \<and> (\<forall>p. [] \<notin> set (task_queue tm p)))"

text \<open>Task \<open>t1\<close> of user \<open>u1\<close> on tier high: created; created, run to 50 percent;
  created, run and completed with result \<open>ok\<close>; created and cancelled.\<close>

definition ex_created :: "string task_manager" where
  "ex_created = run init_tm
     [Create ''t1'' ''2024-01-01T10:00:00'' ''content_generation'' ''u1'' ''{}'' HIGH 3 300]"

definition ex_running :: "string task_manager" where
  "ex_running = run ex_created
     [Update ''2024-01-01T10:00:01'' ''t1'' ''running'' None None None,
      Update ''2024-01-01T10:00:04'' ''t1'' ''running'' (Some 50) None None]"

definition ex_completed :: "string task_manager" where
  "ex_completed = run ex_created
     [Update ''2024-01-01T10:00:01'' ''t1'' ''running'' None None None,
      Complete ''2024-01-01T10:00:09'' ''t1'' (Some ''ok'')]"

definition ex_cancelled :: "string task_manager" where
  "ex_cancelled = step ex_created (Cancel ''2024-01-01T10:00:05'' ''t1'' ''Cancelled by user'')"

definition t1_created :: "string task_data" where
  "t1_created = \<lparr> task_id = ''t1'', task_type = ''content_generation'', user_id = ''u1'',
      parameters = ''{}'', status = ''pending'', priority = 3,
      max_retries = 3, retry_count = 0, timeout_seconds = 300,
      created_at = ''2024-01-01T10:00:00'', updated_at = ''2024-01-01T10:00:00'',
      started_at = None, completed_at = None, result = None, error = None, progress = 0 \<rparr>"

definition t1_completed :: "string task_data" where
  "t1_completed = \<lparr> task_id = ''t1'', task_type = ''content_generation'', user_id = ''u1'',
      parameters = ''{}'', status = ''completed'', priority = 3,
      max_retries = 3, retry_count = 0, timeout_seconds = 300,
      created_at = ''2024-01-01T10:00:00'', updated_at = ''2024-01-01T10:00:09'',
      started_at = Some ''2024-01-01T10:00:01'', completed_at = Some ''2024-01-01T10:00:09'',
      result = Some ''ok'', error = None, progress = 100 \<rparr>"

text \<open>A task created with \<open>max_retries = -1\<close>.\<close>

definition ex_negative :: "string task_manager" where
  "ex_negative = step init_tm
     (Create ''t3'' ''2024-01-01T11:00:00'' ''trend_analysis'' ''u1'' ''{}'' MEDIUM (- 1) 300)"

text \<open>Task \<open>t2\<close> on tier low with one retry: created and failed; then retried and failed
  again.\<close>

definition ex_failed :: "string task_manager" where
  "ex_failed = run init_tm
     [Create ''t2'' ''2024-01-01T12:00:00'' ''trend_analysis'' ''u1'' ''{}'' LOW 1 300,
      Fail ''2024-01-01T12:00:01'' ''t2'' ''boom'']"

definition t2_failed :: "string task_data" where
  "t2_failed = \<lparr> task_id = ''t2'', task_type = ''trend_analysis'', user_id = ''u1'',
      parameters = ''{}'', status = ''failed'', priority = 1,
      max_retries = 1, retry_count = 0, timeout_seconds = 300,
      created_at = ''2024-01-01T12:00:00'', updated_at = ''2024-01-01T12:00:01'',
      started_at = None, completed_at = Some ''2024-01-01T12:00:01'',
      result = None, error = Some ''boom'', progress = 0 \<rparr>"

definition ex_retry_scenario :: "string op list" where
  "ex_retry_scenario =
     [Create ''t2'' ''2024-01-01T12:00:00'' ''trend_analysis'' ''u1'' ''{}'' LOW 1 300,
      Fail ''2024-01-01T12:00:01'' ''t2'' ''boom'',
      Retry ''2024-01-01T12:00:02'' ''t2'',
      Fail ''2024-01-01T12:00:03'' ''t2'' ''boom again'']"

definition t2_exhausted :: "string task_data" where
  "t2_exhausted = \<lparr> task_id = ''t2'', task_type = ''trend_analysis'', user_id = ''u1'',
      parameters = ''{}'', status = ''failed'', priority = 1,
      max_retries = 1, retry_count = 1, timeout_seconds = 300,
      created_at = ''2024-01-01T12:00:00'', updated_at = ''2024-01-01T12:00:03'',
      started_at = None, completed_at = Some ''2024-01-01T12:00:03'',
      result = None, error = Some ''boom again'', progress = 0 \<rparr>"

text \<open>Creations and dequeues interleaved on tier high, with one creation on tier low.\<close>

definition ex_interleaved :: "string op list" where
  "ex_interleaved =
     [Create ''a'' ''10:00'' ''video_creation'' ''u1'' ''{}'' HIGH 3 300,
      Create ''b'' ''10:01'' ''video_creation'' ''u2'' ''{}'' HIGH 3 300,
      GetNext HIGH,
      Create ''x'' ''10:02'' ''trend_analysis'' ''u1'' ''{}'' LOW 3 300,
      Create ''c'' ''10:03'' ''video_creation'' ''u1'' ''{}'' HIGH 3 300,
      GetNext HIGH]"

text \<open>User \<open>u1\<close> connected on channel 1.\<close>

definition wm_u1 :: "nat websocket_manager" where
  "wm_u1 = \<lparr> active_connections = [''u1'' \<mapsto> 1], subscriptions = [''u1'' \<mapsto> {}],
      connection_metadata = [''u1'' \<mapsto> \<lparr> connected_at = ''2024-01-01T09:00:00'',
        last_activity = ''2024-01-01T09:00:00'', message_count = 0 \<rparr>],
      locked = False, closed = [] \<rparr>"

section \<open>Basic facts\<close>

lemmas TaskStatus_values = PENDING_def RUNNING_def COMPLETED_def FAILED_def CANCELLED_def

text \<open>What \<open>update_task_status\<close> writes for a stored task, in closed form.\<close>

lemma update_task_status_stored:
  assumes "initialized tm" and "tasks tm tid = Some t"
  shows "update_task_status tm now tid st pr er rs =
    (Inr (),
     tm\<lparr> tasks := (tasks tm)(tid \<mapsto>
            t\<lparr> status := st, updated_at := now,
               progress := (case pr of None \<Rightarrow> progress t | Some p \<Rightarrow> p),
               error := (case er of None \<Rightarrow> error t | Some e \<Rightarrow> Some e),
               result := (case rs of None \<Rightarrow> result t | Some r \<Rightarrow> Some r),
               started_at := (if st = RUNNING \<and> falsy (started_at t) then Some now
                              else started_at t),
               completed_at := (if st \<in> set [COMPLETED, FAILED, CANCELLED] then Some now
                                else completed_at t) \<rparr>),
         active_tasks := (if st \<in> set [COMPLETED, FAILED, CANCELLED]
                          then active_tasks tm - {tid} else active_tasks tm) \<rparr>)"
  using assms by (simp add: update_task_status_def Let_def split: option.splits)

lemma update_task_status_absent:
  assumes "initialized tm" and "tasks tm tid = None"
  shows "update_task_status tm now tid st pr er rs = (Inr (), tm)"
  using assms by (simp add: update_task_status_def)

lemma update_task_status_cases:
  obtains (uninit) "\<not> initialized tm"
      "update_task_status tm now tid st pr er rs = (Inl not_initialized, tm)"
  | (absent) "initialized tm" "tasks tm tid = None"
      "update_task_status tm now tid st pr er rs = (Inr (), tm)"
  | (stored) t t' where "initialized tm" "tasks tm tid = Some t"
      "update_task_status tm now tid st pr er rs =
         (Inr (), tm\<lparr> tasks := (tasks tm)(tid \<mapsto> t'),
                       active_tasks := (if st \<in> set [COMPLETED, FAILED, CANCELLED]
                          then active_tasks tm - {tid} else active_tasks tm) \<rparr>)"
      "retry_count t' = retry_count t" "max_retries t' = max_retries t" "priority t' = priority t"
proof (cases "initialized tm")
  case False
  then show ?thesis using uninit by (simp add: update_task_status_def)
next
  case True
  show ?thesis
  proof (cases "tasks tm tid")
    case None
    with True show ?thesis using absent by (simp add: update_task_status_absent)
  next
    case (Some t)
    show ?thesis
      by (rule stored [OF True Some update_task_status_stored [OF True Some]]) simp_all
  qed
qed

lemma update_task_status_queue:
  "task_queue (snd (update_task_status tm now tid st pr er rs)) = task_queue tm"
  by (cases rule: update_task_status_cases [of tm now tid st pr er rs]) simp_all

lemma update_task_status_dom:
  "dom (tasks (snd (update_task_status tm now tid st pr er rs))) = dom (tasks tm)"
  by (cases rule: update_task_status_cases [of tm now tid st pr er rs]) auto

lemma get_next_task_tasks: "tasks (snd (get_next_task tm p)) = tasks tm"
  by (simp add: get_next_task_def split: option.splits prod.splits)

text \<open>The example stores, written out.\<close>

lemma ex_created_eq:
  "ex_created = \<lparr> initialized = True, decode_responses = True,
      tasks = [''t1'' \<mapsto> t1_created],
      user_tasks = (\<lambda>_. {})(''u1'' := {''t1''}), active_tasks = {''t1''},
      task_queue = (\<lambda>_. [])(HIGH := [''t1'']) \<rparr>"
  by (simp add: ex_created_def t1_created_def init_tm_def create_task_def lpush_def PENDING_def)

lemma ex_completed_eq:
  "ex_completed = \<lparr> initialized = True, decode_responses = True,
      tasks = [''t1'' \<mapsto> t1_completed],
      user_tasks = (\<lambda>_. {})(''u1'' := {''t1''}), active_tasks = {},
      task_queue = (\<lambda>_. [])(HIGH := [''t1'']) \<rparr>"
  by (simp add: ex_completed_def ex_created_eq t1_created_def t1_completed_def complete_task_def
      update_task_status_def Let_def falsy_def TaskStatus_values)

lemma ex_running_eq:
  "ex_running = \<lparr> initialized = True, decode_responses = True,
      tasks = [''t1'' \<mapsto> t1_created\<lparr> status := ''running'', updated_at := ''2024-01-01T10:00:04'',
                 started_at := Some ''2024-01-01T10:00:01'', progress := 50 \<rparr>],
      user_tasks = (\<lambda>_. {})(''u1'' := {''t1''}), active_tasks = {''t1''},
      task_queue = (\<lambda>_. [])(HIGH := [''t1'']) \<rparr>"
  by (simp add: ex_running_def ex_created_eq t1_created_def update_task_status_def Let_def
      falsy_def TaskStatus_values)


lemma ex_failed_eq:
  "ex_failed = \<lparr> initialized = True, decode_responses = True,
      tasks = [''t2'' \<mapsto> t2_failed],
      user_tasks = (\<lambda>_. {})(''u1'' := {''t2''}), active_tasks = {},
      task_queue = (\<lambda>_. [])(LOW := [''t2'']) \<rparr>"
  by (simp add: ex_failed_def t2_failed_def init_tm_def create_task_def lpush_def fail_task_def
      update_task_status_def Let_def falsy_def TaskStatus_values)

lemma ex_retry_scenario_eq:
  "run init_tm ex_retry_scenario = \<lparr> initialized = True, decode_responses = True,
      tasks = [''t2'' \<mapsto> t2_exhausted],
      user_tasks = (\<lambda>_. {})(''u1'' := {''t2''}), active_tasks = {},
      task_queue = (\<lambda>_. [])(LOW := [''t2'', ''t2'']) \<rparr>"
  by (simp add: ex_retry_scenario_def t2_exhausted_def init_tm_def create_task_def lpush_def
      fail_task_def retry_task_def TaskPriority_of_def update_task_status_def Let_def falsy_def
      TaskStatus_values)

section \<open>Status updates\<close>

text \<open>
  Claim C9, amended. \<open>mark_running\<close> is \<open>update_task_status\<close> with status
  \<open>running\<close> and nothing else. On a task absent from the store it returns normally and
  leaves the store as it was; no error is raised (the code logs a warning). On a stored
  task, whatever its status, it sets the status to \<open>running\<close>, refreshes \<open>updated_at\<close>,
  and sets \<open>started_at\<close> only when that was not set yet.
\<close>

theorem mark_running_absent_or_stored:
  assumes "initialized tm"
  shows "(tasks tm tid = None \<longrightarrow>
            update_task_status tm now tid RUNNING None None None = (Inr (), tm)) \<and>
         (\<forall>t. tasks tm tid = Some t \<longrightarrow>
            update_task_status tm now tid RUNNING None None None =
              (Inr (), tm\<lparr> tasks := (tasks tm)(tid \<mapsto>
                 t\<lparr> status := RUNNING, updated_at := now,
                    started_at := (if falsy (started_at t) then Some now else started_at t) \<rparr>) \<rparr>))"
  using assms
  by (simp add: update_task_status_stored update_task_status_absent TaskStatus_values)

theorem mark_running_absent_or_stored_witness:
  "initialized ex_created \<and> tasks ex_created ''t9'' = None \<and>
   update_task_status ex_created ''2024-01-01T10:00:01'' ''t9'' RUNNING None None None =
     (Inr (), ex_created) \<and>
   tasks ex_created ''t1'' = Some t1_created \<and>
   update_task_status ex_created ''2024-01-01T10:00:01'' ''t1'' RUNNING None None None =
     (Inr (), ex_created\<lparr> tasks := (tasks ex_created)(''t1'' \<mapsto>
        t1_created\<lparr> status := RUNNING, updated_at := ''2024-01-01T10:00:01'',
           started_at := Some ''2024-01-01T10:00:01'' \<rparr>) \<rparr>)"
proof -
  have i: "initialized ex_created" by (simp add: ex_created_eq)
  have n: "tasks ex_created ''t9'' = None" by (simp add: ex_created_eq)
  have s: "tasks ex_created ''t1'' = Some t1_created" by (simp add: ex_created_eq)
  have f: "falsy (started_at t1_created)" by (simp add: falsy_def t1_created_def)
  from mark_running_absent_or_stored [OF i, of "''t9''" "''2024-01-01T10:00:01''"] n
  have a: "update_task_status ex_created ''2024-01-01T10:00:01'' ''t9'' RUNNING None None None =
     (Inr (), ex_created)" by blast
  from mark_running_absent_or_stored [OF i, of "''t1''" "''2024-01-01T10:00:01''"] s
  have "update_task_status ex_created ''2024-01-01T10:00:01'' ''t1'' RUNNING None None None =
     (Inr (), ex_created\<lparr> tasks := (tasks ex_created)(''t1'' \<mapsto>
        t1_created\<lparr> status := RUNNING, updated_at := ''2024-01-01T10:00:01'',
           started_at := (if falsy (started_at t1_created) then Some ''2024-01-01T10:00:01''
                          else started_at t1_created) \<rparr>) \<rparr>)" by blast
  with f have b: "update_task_status ex_created ''2024-01-01T10:00:01'' ''t1'' RUNNING None None None =
     (Inr (), ex_created\<lparr> tasks := (tasks ex_created)(''t1'' \<mapsto>
        t1_created\<lparr> status := RUNNING, updated_at := ''2024-01-01T10:00:01'',
           started_at := Some ''2024-01-01T10:00:01'' \<rparr>) \<rparr>)" by simp
  from i n a s b show ?thesis by blast
qed

text \<open>The claim as stated asks for a \<open>NotFound\<close> failure; on the empty store the call
  returns without one.\<close>

theorem mark_running_absent_counterexample:
  "tasks (init_tm :: string task_manager) ''ghost'' = None \<and>
   update_task_status (init_tm :: string task_manager) ''2024-01-01T10:00:00'' ''ghost''
     RUNNING None None None = (Inr (), init_tm)"
  by (simp add: init_tm_def update_task_status_def)

text \<open>
  Claim C7, amended. A progress report is \<open>update_task_status\<close> with a progress value.
  With the manager initialized it never returns an error, for any task identifier and any
  integer; for a stored task the value passed is stored as it is: it is not clamped to
  the range from 0 to 100 and not compared with the progress stored before.
\<close>

theorem progress_stored_verbatim:
  assumes "initialized tm"
  shows "fst (update_task_status tm now tid st (Some p) er rs) = Inr () \<and>
         (\<forall>t. tasks tm tid = Some t \<longrightarrow>
            map_option progress (tasks (snd (update_task_status tm now tid st (Some p) er rs)) tid)
              = Some p)"
proof (cases "tasks tm tid")
  case None
  with assms show ?thesis by (simp add: update_task_status_absent)
next
  case (Some t)
  with assms show ?thesis by (simp add: update_task_status_stored)
qed

theorem progress_stored_verbatim_witness:
  "initialized ex_running \<and>
   fst (update_task_status ex_running ''2024-01-01T10:00:06'' ''t1'' RUNNING (Some 75) None None)
     = Inr () \<and>
   map_option progress (tasks (snd (update_task_status ex_running ''2024-01-01T10:00:06'' ''t1''
     RUNNING (Some 75) None None)) ''t1'') = Some 75"
proof -
  have i: "initialized ex_running" by (simp add: ex_running_eq)
  have s: "tasks ex_running ''t1'' \<noteq> None" by (simp add: ex_running_eq)
  from progress_stored_verbatim [OF i, of "''2024-01-01T10:00:06''" "''t1''" RUNNING 75 None None]
    i s show ?thesis by auto
qed

text \<open>The claim as stated keeps the stored progress within 0 to 100 and never lets it
  fall while the task runs; task \<open>t1\<close>, running at 50 percent, takes 150 and takes 10.\<close>

theorem progress_not_clamped_counterexample:
  "map_option status (tasks ex_running ''t1'') = Some RUNNING \<and>
   map_option progress (tasks ex_running ''t1'') = Some 50 \<and>
   map_option progress (tasks (snd (update_task_status ex_running ''2024-01-01T10:00:06'' ''t1''
     RUNNING (Some 150) None None)) ''t1'') = Some 150 \<and>
   map_option progress (tasks (snd (update_task_status ex_running ''2024-01-01T10:00:06'' ''t1''
     RUNNING (Some 10) None None)) ''t1'') = Some 10"
  by (simp add: ex_running_eq update_task_status_def Let_def falsy_def TaskStatus_values)

text \<open>
  Claim C1, amended. A terminal status does not freeze the record. For every stored task,
  whatever its status, \<open>update_task_status\<close> (and so \<open>mark_running\<close>, a progress report,
  \<open>complete_task\<close> and \<open>fail_task\<close>) returns without error and overwrites the record: the
  status becomes the one requested, \<open>updated_at\<close> the time of the call, and progress,
  error and result are replaced when a value is passed. It never changes \<open>task_id\<close>,
  \<open>task_type\<close>, \<open>user_id\<close>, \<open>parameters\<close>, \<open>priority\<close>, \<open>max_retries\<close>, \<open>retry_count\<close>,
  \<open>timeout_seconds\<close> or \<open>created_at\<close>. Repeating \<open>complete_task\<close> with the identical
  result on a task already completed at progress 100 returns success and rewrites nothing
  but the two time stamps \<open>updated_at\<close> and \<open>completed_at\<close>.
\<close>

theorem status_updates_overwrite:
  assumes "initialized tm" and "tasks tm tid = Some t"
  shows
    "(\<exists>t'. update_task_status tm now tid st pr er rs =
         (Inr (), tm\<lparr> tasks := (tasks tm)(tid \<mapsto> t'),
                       active_tasks := (if st \<in> set [COMPLETED, FAILED, CANCELLED]
                                        then active_tasks tm - {tid} else active_tasks tm) \<rparr>) \<and>
        status t' = st \<and> updated_at t' = now \<and>
        progress t' = (case pr of None \<Rightarrow> progress t | Some p \<Rightarrow> p) \<and>
        error t' = (case er of None \<Rightarrow> error t | Some e \<Rightarrow> Some e) \<and>
        result t' = (case rs of None \<Rightarrow> result t | Some r \<Rightarrow> Some r) \<and>
        task_id t' = task_id t \<and> task_type t' = task_type t \<and> user_id t' = user_id t \<and>
        parameters t' = parameters t \<and> priority t' = priority t \<and>
        max_retries t' = max_retries t \<and> retry_count t' = retry_count t \<and>
        timeout_seconds t' = timeout_seconds t \<and> created_at t' = created_at t) \<and>
     map_option status (tasks (snd (complete_task tm now tid rs)) tid) = Some COMPLETED \<and>
     map_option status (tasks (snd (fail_task tm now tid e)) tid) = Some FAILED \<and>
     (status t = COMPLETED \<and> progress t = 100 \<and> result t = rs \<longrightarrow>
        complete_task tm now tid rs =
          (Inr (), tm\<lparr> tasks := (tasks tm)(tid \<mapsto> t\<lparr> updated_at := now, completed_at := Some now \<rparr>),
                        active_tasks := active_tasks tm - {tid} \<rparr>))"
proof -
  have a: "\<exists>t'. update_task_status tm now tid st pr er rs =
         (Inr (), tm\<lparr> tasks := (tasks tm)(tid \<mapsto> t'),
                       active_tasks := (if st \<in> set [COMPLETED, FAILED, CANCELLED]
                                        then active_tasks tm - {tid} else active_tasks tm) \<rparr>) \<and>
        status t' = st \<and> updated_at t' = now \<and>
        progress t' = (case pr of None \<Rightarrow> progress t | Some p \<Rightarrow> p) \<and>
        error t' = (case er of None \<Rightarrow> error t | Some e \<Rightarrow> Some e) \<and>
        result t' = (case rs of None \<Rightarrow> result t | Some r \<Rightarrow> Some r) \<and>
        task_id t' = task_id t \<and> task_type t' = task_type t \<and> user_id t' = user_id t \<and>
        parameters t' = parameters t \<and> priority t' = priority t \<and>
        max_retries t' = max_retries t \<and> retry_count t' = retry_count t \<and>
        timeout_seconds t' = timeout_seconds t \<and> created_at t' = created_at t"
    by (rule exI, rule conjI, rule update_task_status_stored [OF assms]) simp
  have b: "map_option status (tasks (snd (complete_task tm now tid rs)) tid) = Some COMPLETED"
    by (simp add: complete_task_def update_task_status_stored [OF assms])
  have c: "map_option status (tasks (snd (fail_task tm now tid e)) tid) = Some FAILED"
    by (simp add: fail_task_def update_task_status_stored [OF assms])
  have d: "status t = COMPLETED \<and> progress t = 100 \<and> result t = rs \<longrightarrow>
        complete_task tm now tid rs =
          (Inr (), tm\<lparr> tasks := (tasks tm)(tid \<mapsto> t\<lparr> updated_at := now, completed_at := Some now \<rparr>),
                        active_tasks := active_tasks tm - {tid} \<rparr>)"
  proof (intro impI, elim conjE)
    assume s: "status t = COMPLETED" and p: "progress t = 100" and r: "result t = rs"
    have "t\<lparr> status := COMPLETED, updated_at := now, progress := 100,
             result := (case rs of None \<Rightarrow> result t | Some r \<Rightarrow> Some r),
             completed_at := Some now \<rparr> =
          t\<lparr> updated_at := now, completed_at := Some now \<rparr>"
      by (rule task_data.equality) (simp_all add: s p r split: option.splits)
    then show "complete_task tm now tid rs =
          (Inr (), tm\<lparr> tasks := (tasks tm)(tid \<mapsto> t\<lparr> updated_at := now, completed_at := Some now \<rparr>),
                        active_tasks := active_tasks tm - {tid} \<rparr>)"
      by (simp add: complete_task_def update_task_status_stored [OF assms] TaskStatus_values)
  qed
  from a b c d show ?thesis by blast
qed

theorem status_updates_overwrite_witness:
  "initialized ex_completed \<and> tasks ex_completed ''t1'' = Some t1_completed \<and>
   status t1_completed = COMPLETED \<and> progress t1_completed = 100 \<and>
   result t1_completed = Some ''ok'' \<and>
   map_option status (tasks (snd (fail_task ex_completed ''2024-01-01T10:00:20'' ''t1'' ''late''))
     ''t1'') = Some FAILED \<and>
   complete_task ex_completed ''2024-01-01T10:00:20'' ''t1'' (Some ''ok'') =
     (Inr (), ex_completed\<lparr> tasks := (tasks ex_completed)(''t1'' \<mapsto>
        t1_completed\<lparr> updated_at := ''2024-01-01T10:00:20'',
                      completed_at := Some ''2024-01-01T10:00:20'' \<rparr>),
        active_tasks := active_tasks ex_completed - {''t1''} \<rparr>)"
proof -
  have i: "initialized ex_completed" by (simp add: ex_completed_eq)
  have s: "tasks ex_completed ''t1'' = Some t1_completed" by (simp add: ex_completed_eq)
  have c: "status t1_completed = COMPLETED \<and> progress t1_completed = 100 \<and>
           result t1_completed = Some ''ok''"
    by (simp add: t1_completed_def COMPLETED_def)
  from status_updates_overwrite [OF i s, of "''2024-01-01T10:00:20''" RUNNING None None
      "Some ''ok''" "''late''"] i s c
  show ?thesis by blast
qed

text \<open>The claim as stated leaves a terminal record unchanged; the completed task \<open>t1\<close>
  is set back to \<open>running\<close> by \<open>mark_running\<close>.\<close>

theorem terminal_record_overwritten_counterexample:
  "map_option status (tasks ex_completed ''t1'') = Some COMPLETED \<and>
   fst (update_task_status ex_completed ''2024-01-01T10:00:20'' ''t1'' RUNNING None None None)
     = Inr () \<and>
   map_option status (tasks (snd (update_task_status ex_completed ''2024-01-01T10:00:20'' ''t1''
       RUNNING None None None)) ''t1'') = Some RUNNING \<and>
   tasks (snd (update_task_status ex_completed ''2024-01-01T10:00:20'' ''t1''
       RUNNING None None None)) ''t1'' \<noteq> tasks ex_completed ''t1''"
  by (simp add: ex_completed_eq t1_completed_def update_task_status_def Let_def falsy_def
      TaskStatus_values)

section \<open>Cancellation and retry\<close>

text \<open>
  Claim C5, amended. \<open>TaskManager.cancel_task\<close> checks no status: on every stored task,
  terminal or not, it sets the status to \<open>cancelled\<close>, stores the reason as the error,
  sets \<open>completed_at\<close> and takes the task out of the active set, without an error. The
  rejection is done by its caller, the route \<open>DELETE /tasks/{task_id}\<close>: for the task's
  owner it answers a terminal status (completed, failed, cancelled) with the HTTP error
  400 \<open>Task cannot be cancelled\<close> and leaves the store unchanged, and any other status
  with success after \<open>cancel_task\<close> with the reason \<open>Cancelled by user\<close>.
\<close>

theorem cancel_guard_in_route:
  assumes "initialized tm" and "tasks tm tid = Some t"
  shows
    "cancel_task tm now tid reason =
       (Inr (), tm\<lparr> tasks := (tasks tm)(tid \<mapsto>
                       t\<lparr> status := CANCELLED, updated_at := now, error := Some reason,
                          completed_at := Some now \<rparr>),
                     active_tasks := active_tasks tm - {tid} \<rparr>) \<and>
     (user_id t = uid \<longrightarrow>
        cancel_task_route tm now tid uid =
          (if status t \<in> set [COMPLETED, FAILED, CANCELLED]
           then (Inl (HTTPException 400 ''Task cannot be cancelled''), tm)
           else (Inr (''Task cancelled successfully'', tid),
                 snd (cancel_task tm now tid ''Cancelled by user''))))"
proof -
  have a: "cancel_task tm now tid reason =
       (Inr (), tm\<lparr> tasks := (tasks tm)(tid \<mapsto>
                       t\<lparr> status := CANCELLED, updated_at := now, error := Some reason,
                          completed_at := Some now \<rparr>),
                     active_tasks := active_tasks tm - {tid} \<rparr>)" for reason
    by (simp add: cancel_task_def update_task_status_stored [OF assms] TaskStatus_values)
  have b: "user_id t = uid \<longrightarrow>
        cancel_task_route tm now tid uid =
          (if status t \<in> set [COMPLETED, FAILED, CANCELLED]
           then (Inl (HTTPException 400 ''Task cannot be cancelled''), tm)
           else (Inr (''Task cancelled successfully'', tid),
                 snd (cancel_task tm now tid ''Cancelled by user'')))"
    using assms by (simp add: cancel_task_route_def get_task_status_def a TaskStatus_values)
  from a b show ?thesis by blast
qed

theorem cancel_guard_in_route_witness:
  "initialized ex_completed \<and> tasks ex_completed ''t1'' = Some t1_completed \<and>
   user_id t1_completed = ''u1'' \<and>
   cancel_task_route ex_completed ''2024-01-01T10:00:30'' ''t1'' ''u1'' =
     (Inl (HTTPException 400 ''Task cannot be cancelled''), ex_completed) \<and>
   initialized ex_created \<and> tasks ex_created ''t1'' = Some t1_created \<and>
   user_id t1_created = ''u1'' \<and>
   cancel_task_route ex_created ''2024-01-01T10:00:05'' ''t1'' ''u1'' =
     (Inr (''Task cancelled successfully'', ''t1''), ex_cancelled)"
proof -
  have i: "initialized ex_completed" by (simp add: ex_completed_eq)
  have s: "tasks ex_completed ''t1'' = Some t1_completed" by (simp add: ex_completed_eq)
  have u: "user_id t1_completed = ''u1''" by (simp add: t1_completed_def)
  have t: "status t1_completed \<in> set [COMPLETED, FAILED, CANCELLED]"
    by (simp add: t1_completed_def TaskStatus_values)
  have i': "initialized ex_created" by (simp add: ex_created_eq)
  have s': "tasks ex_created ''t1'' = Some t1_created" by (simp add: ex_created_eq)
  have u': "user_id t1_created = ''u1''" by (simp add: t1_created_def)
  have t': "status t1_created \<notin> set [COMPLETED, FAILED, CANCELLED]"
    by (simp add: t1_created_def TaskStatus_values)
  have c: "snd (cancel_task ex_created ''2024-01-01T10:00:05'' ''t1'' ''Cancelled by user'') =
           ex_cancelled" by (simp add: ex_cancelled_def)
  from cancel_guard_in_route [OF i s, of "''2024-01-01T10:00:30''" "''x''" "''u1''"] u t
  have a: "cancel_task_route ex_completed ''2024-01-01T10:00:30'' ''t1'' ''u1'' =
     (Inl (HTTPException 400 ''Task cannot be cancelled''), ex_completed)" by simp
  from cancel_guard_in_route [OF i' s', of "''2024-01-01T10:00:05''" "''x''" "''u1''"] u' t' c
  have b: "cancel_task_route ex_created ''2024-01-01T10:00:05'' ''t1'' ''u1'' =
     (Inr (''Task cancelled successfully'', ''t1''), ex_cancelled)" by simp
  from i s u a i' s' u' b show ?thesis by blast
qed

text \<open>The claim as stated makes \<open>cancel(task_id, reason)\<close> fail on a terminal task and
  leave the record unchanged; \<open>cancel_task\<close> on the completed task \<open>t1\<close> returns normally
  and turns it into a cancelled one.\<close>

theorem cancel_task_on_completed_counterexample:
  "map_option status (tasks ex_completed ''t1'') = Some COMPLETED \<and>
   fst (cancel_task ex_completed ''2024-01-01T10:00:30'' ''t1'' ''too late'') = Inr () \<and>
   map_option status (tasks (snd (cancel_task ex_completed ''2024-01-01T10:00:30'' ''t1''
     ''too late'')) ''t1'') = Some CANCELLED \<and>
   map_option error (tasks (snd (cancel_task ex_completed ''2024-01-01T10:00:30'' ''t1''
     ''too late'')) ''t1'') = Some (Some ''too late'')"
  by (simp add: ex_completed_eq t1_completed_def cancel_task_def update_task_status_def Let_def
      falsy_def TaskStatus_values)

text \<open>
  Claim C6, amended. \<open>retry_task\<close> checks no status: on every stored task, of any status,
  whose \<open>retry_count\<close> is below \<open>max_retries\<close> it returns \<open>True\<close>, increments
  \<open>retry_count\<close>, resets the status to \<open>pending\<close>, clears \<open>started_at\<close>, \<open>completed_at\<close>
  and \<open>error\<close>, sets the progress to 0, puts the task into the active set and pushes its
  identifier on the queue of the tier the record's priority names.
\<close>

theorem retry_requeues_any_status:
  assumes "initialized tm" and "tasks tm tid = Some t"
    and "retry_count t < max_retries t" and "TaskPriority_of (priority t) = Some p"
  shows "retry_task tm now tid =
    (Inr True,
     tm\<lparr> tasks := (tasks tm)(tid \<mapsto>
            t\<lparr> retry_count := retry_count t + 1, status := PENDING, updated_at := now,
               started_at := None, completed_at := None, error := None, progress := 0 \<rparr>),
         active_tasks := insert tid (active_tasks tm),
         task_queue := (task_queue tm)(p := tid # task_queue tm p) \<rparr>)"
  using assms by (simp add: retry_task_def Let_def lpush_def)

theorem retry_requeues_any_status_witness:
  "initialized ex_failed \<and> tasks ex_failed ''t2'' = Some t2_failed \<and>
   status t2_failed = FAILED \<and> retry_count t2_failed < max_retries t2_failed \<and>
   TaskPriority_of (priority t2_failed) = Some LOW \<and>
   retry_task ex_failed ''2024-01-01T12:00:02'' ''t2'' =
    (Inr True,
     ex_failed\<lparr> tasks := (tasks ex_failed)(''t2'' \<mapsto>
            t2_failed\<lparr> retry_count := retry_count t2_failed + 1, status := PENDING,
               updated_at := ''2024-01-01T12:00:02'',
               started_at := None, completed_at := None, error := None, progress := 0 \<rparr>),
         active_tasks := insert ''t2'' (active_tasks ex_failed),
         task_queue := (task_queue ex_failed)(LOW := ''t2'' # task_queue ex_failed LOW) \<rparr>)"
proof -
  have i: "initialized ex_failed" by (simp add: ex_failed_eq)
  have s: "tasks ex_failed ''t2'' = Some t2_failed" by (simp add: ex_failed_eq)
  have f: "status t2_failed = FAILED" by (simp add: t2_failed_def FAILED_def)
  have r: "retry_count t2_failed < max_retries t2_failed" by (simp add: t2_failed_def)
  have p: "TaskPriority_of (priority t2_failed) = Some LOW"
    by (simp add: t2_failed_def TaskPriority_of_def)
  from retry_requeues_any_status [OF i s r p, of "''2024-01-01T12:00:02''"] i s f r p
  show ?thesis by blast
qed

text \<open>The claim as stated allows a retry only on a failed task; the pending task \<open>t1\<close>,
  still waiting in its queue, is retried with success and queued a second time.\<close>

theorem retry_on_pending_counterexample:
  "map_option status (tasks ex_created ''t1'') = Some PENDING \<and>
   fst (retry_task ex_created ''2024-01-01T10:00:02'' ''t1'') = Inr True \<and>
   map_option retry_count (tasks (snd (retry_task ex_created ''2024-01-01T10:00:02'' ''t1''))
     ''t1'') = Some 1 \<and>
   task_queue (snd (retry_task ex_created ''2024-01-01T10:00:02'' ''t1'')) HIGH = [''t1'', ''t1'']"
  by (simp add: ex_created_eq t1_created_def retry_task_def TaskPriority_of_def lpush_def Let_def
      TaskStatus_values)

section \<open>The tier queues\<close>




section \<open>Sequences of operations\<close>

lemma step_initialized: "initialized (step tm x) = initialized tm"
proof (cases x)
  case (Create uuid now ty u ps p mr ts)
  then show ?thesis by (simp add: create_task_def)
next
  case (Update now tid st pr er rs)
  then show ?thesis
    by (cases rule: update_task_status_cases [of tm now tid st pr er rs]) simp_all
next
  case (Complete now tid rs)
  then show ?thesis
    by (cases rule: update_task_status_cases [of tm now tid COMPLETED "Some 100" None rs])
       (simp_all add: complete_task_def)
next
  case (Fail now tid er)
  then show ?thesis
    by (cases rule: update_task_status_cases [of tm now tid FAILED None "Some er" None])
       (simp_all add: fail_task_def)
next
  case (Cancel now tid reason)
  then show ?thesis
    by (cases rule: update_task_status_cases [of tm now tid CANCELLED None "Some reason" None])
       (simp_all add: cancel_task_def)
next
  case (Retry now tid)
  then show ?thesis by (simp add: retry_task_def Let_def split: option.splits)
next
  case (GetNext p)
  then show ?thesis by (simp add: get_next_task_def split: option.splits prod.splits)
qed

lemma run_initialized: "initialized (run tm ops) = initialized tm"
  by (induction ops arbitrary: tm) (simp_all add: step_initialized)

subsection \<open>The retry bound\<close>

lemma update_task_status_retry_bounded:
  assumes "retry_bounded tm"
  shows "retry_bounded (snd (update_task_status tm now tid st pr er rs))"
proof (cases rule: update_task_status_cases [of tm now tid st pr er rs])
  case uninit
  with assms show ?thesis by simp
next
  case absent
  with assms show ?thesis by simp
next
  case (stored t t')
  with assms show ?thesis by (auto simp: retry_bounded_def)
qed

lemma create_task_retry_bounded:
  assumes "retry_bounded tm" and "0 \<le> mr"
  shows "retry_bounded (snd (create_task tm uuid now ty u ps p mr ts))"
  using assms by (auto simp: retry_bounded_def create_task_def)

lemma retry_task_retry_bounded:
  assumes "retry_bounded tm"
  shows "retry_bounded (snd (retry_task tm now tid))"
  using assms
  by (auto simp: retry_bounded_def retry_task_def Let_def split: option.splits)

lemma step_retry_bounded:
  assumes "retry_bounded tm" and "sane_retries x"
  shows "retry_bounded (step tm x)"
proof (cases x)
  case (Create uuid now ty u ps p mr ts)
  with assms show ?thesis by (simp add: create_task_retry_bounded)
next
  case (Update now tid st pr er rs)
  with assms show ?thesis by (simp add: update_task_status_retry_bounded)
next
  case (Complete now tid rs)
  with assms show ?thesis by (simp add: complete_task_def update_task_status_retry_bounded)
next
  case (Fail now tid er)
  with assms show ?thesis by (simp add: fail_task_def update_task_status_retry_bounded)
next
  case (Cancel now tid reason)
  with assms show ?thesis by (simp add: cancel_task_def update_task_status_retry_bounded)
next
  case (Retry now tid)
  with assms show ?thesis by (simp add: retry_task_retry_bounded)
next
  case (GetNext p)
  with assms show ?thesis by (simp add: retry_bounded_def get_next_task_tasks)
qed

lemma run_retry_bounded:
  assumes "retry_bounded tm" and "list_all sane_retries ops"
  shows "retry_bounded (run tm ops)"
  using assms by (induction ops arbitrary: tm) (simp_all add: step_retry_bounded)

lemma init_tm_retry_bounded: "retry_bounded init_tm"
  by (simp add: retry_bounded_def init_tm_def)

lemma retry_task_exhausted:
  assumes "initialized tm" and "tasks tm tid = Some t" and "max_retries t \<le> retry_count t"
  shows "retry_task tm now tid = (Inr False, tm)"
  using assms by (simp add: retry_task_def)

text \<open>
  Claim C2, amended. Starting from the empty store, after every sequence of creations,
  status updates, completions, failures, cancellations, retries and dequeues in which
  each creation passes \<open>max_retries \<ge> 0\<close>, every stored task has
  \<open>retry_count \<le> max_retries\<close>. In every store, \<open>retry_task\<close> on a stored task whose
  \<open>retry_count\<close> has reached \<open>max_retries\<close> returns \<open>False\<close> (the code's one signal of
  refusal; there is no separate \<open>RetryExhausted\<close> value) and leaves the record, the
  active set and the queues as they were.
\<close>

theorem retry_count_bounded:
  assumes "list_all sane_retries ops"
  shows "retry_bounded (run init_tm ops) \<and>
         (\<forall>tm tid t now. initialized tm \<and> tasks tm tid = Some t \<and> max_retries t \<le> retry_count t
            \<longrightarrow> retry_task tm now tid = (Inr False, (tm :: 'v task_manager)))"
  using assms by (simp add: run_retry_bounded init_tm_retry_bounded retry_task_exhausted)

theorem retry_count_bounded_witness:
  "list_all sane_retries ex_retry_scenario \<and>
   retry_bounded (run init_tm ex_retry_scenario) \<and>
   initialized (run init_tm ex_retry_scenario) \<and>
   tasks (run init_tm ex_retry_scenario) ''t2'' = Some t2_exhausted \<and>
   retry_count t2_exhausted = 1 \<and> max_retries t2_exhausted = 1 \<and>
   retry_task (run init_tm ex_retry_scenario) ''2024-01-01T12:00:04'' ''t2'' =
     (Inr False, run init_tm ex_retry_scenario)"
proof -
  have l: "list_all sane_retries ex_retry_scenario" by (simp add: ex_retry_scenario_def)
  have i: "initialized (run init_tm ex_retry_scenario)" by (simp add: ex_retry_scenario_eq)
  have s: "tasks (run init_tm ex_retry_scenario) ''t2'' = Some t2_exhausted"
    by (simp add: ex_retry_scenario_eq)
  have r: "retry_count t2_exhausted = 1" and m: "max_retries t2_exhausted = 1"
    by (simp_all add: t2_exhausted_def)
  from r m have e: "max_retries t2_exhausted \<le> retry_count t2_exhausted" by simp
  from retry_count_bounded [OF l] l i s r m e show ?thesis by blast
qed

text \<open>The claim as stated bounds \<open>retry_count\<close> by \<open>max_retries\<close> for every task; a task
  created with \<open>max_retries = -1\<close> is stored with \<open>retry_count = 0\<close>.\<close>

theorem negative_max_retries_counterexample:
  "map_option retry_count (tasks ex_negative ''t3'') = Some 0 \<and>
   map_option max_retries (tasks ex_negative ''t3'') = Some (- 1) \<and>
   \<not> retry_bounded ex_negative"
proof -
  have t: "tasks ex_negative ''t3'' = Some \<lparr> task_id = ''t3'', task_type = ''trend_analysis'',
      user_id = ''u1'', parameters = ''{}'', status = PENDING, priority = 2,
      max_retries = - 1, retry_count = 0, timeout_seconds = 300,
      created_at = ''2024-01-01T11:00:00'', updated_at = ''2024-01-01T11:00:00'',
      started_at = None, completed_at = None, result = None, error = None, progress = 0 \<rparr>"
    by (simp add: ex_negative_def init_tm_def create_task_def)
  then have "\<not> retry_bounded ex_negative"
    unfolding retry_bounded_def by (intro notI) (drule spec, drule spec, drule (1) mp, simp)
  with t show ?thesis by simp
qed

subsection \<open>First in, first out\<close>

lemma step_decode_responses: "decode_responses (step tm x) = decode_responses tm"
proof (cases x)
  case (Create uuid now ty u ps p mr ts)
  then show ?thesis by (simp add: create_task_def)
next
  case (Update now tid st pr er rs)
  then show ?thesis
    by (cases rule: update_task_status_cases [of tm now tid st pr er rs]) simp_all
next
  case (Complete now tid rs)
  then show ?thesis
    by (cases rule: update_task_status_cases [of tm now tid COMPLETED "Some 100" None rs])
       (simp_all add: complete_task_def)
next
  case (Fail now tid er)
  then show ?thesis
    by (cases rule: update_task_status_cases [of tm now tid FAILED None "Some er" None])
       (simp_all add: fail_task_def)
next
  case (Cancel now tid reason)
  then show ?thesis
    by (cases rule: update_task_status_cases [of tm now tid CANCELLED None "Some reason" None])
       (simp_all add: cancel_task_def)
next
  case (Retry now tid)
  then show ?thesis by (simp add: retry_task_def Let_def split: option.splits)
next
  case (GetNext p)
  then show ?thesis by (simp add: get_next_task_def split: option.splits prod.splits)
qed

text \<open>With a client that answers with \<open>str\<close>, \<open>get_next_task\<close> hands out nothing,
  whatever the store and the tier.\<close>

lemma get_next_task_str_client:
  assumes "decode_responses tm"
  shows "fst (get_next_task tm p) = None"
  using assms by (simp add: get_next_task_def split: option.splits prod.splits)

lemma dequeued_by_str_client:
  assumes "decode_responses tm"
  shows "dequeued_by q tm ops = []"
  using assms
proof (induction ops arbitrary: tm)
  case Nil
  then show ?case by simp
next
  case (Cons x xs)
  then have d: "decode_responses (step tm x)" by (simp add: step_decode_responses)
  have "dequeued q tm x = []"
    using Cons.prems by (cases x) (simp_all add: get_next_task_str_client)
  with Cons.IH [OF d] show ?case by simp
qed

text \<open>With a client that answers with \<open>bytes\<close> the tiers are first in, first out: over
  any sequence of operations with proper identifiers, what was waiting on a tier followed
  by what was put on it is what was handed out followed by what is still waiting.\<close>

lemma update_task_status_proper:
  "proper_ids tm \<Longrightarrow> proper_ids (snd (update_task_status tm now tid st pr er rs))"
  by (simp add: proper_ids_def update_task_status_queue update_task_status_dom)

lemma create_task_fifo:
  assumes "proper_ids tm" and "uuid \<noteq> []"
  shows "proper_ids (snd (create_task tm uuid now ty u ps p mr ts)) \<and>
    rev (task_queue tm q) @ enqueued q tm (Create uuid now ty u ps p mr ts) =
    rev (task_queue (snd (create_task tm uuid now ty u ps p mr ts)) q)"
  using assms by (auto simp: proper_ids_def create_task_def lpush_def)

lemma retry_task_fifo:
  assumes "proper_ids tm"
  shows "proper_ids (snd (retry_task tm now tid)) \<and>
    rev (task_queue tm q) @ enqueued q tm (Retry now tid) =
    rev (task_queue (snd (retry_task tm now tid)) q)"
  using assms
  by (auto simp: proper_ids_def retry_task_def tier_of_def lpush_def Let_def
      split: option.splits)

lemma get_next_task_fifo:
  assumes "proper_ids tm" and "\<not> decode_responses tm"
  shows "proper_ids (snd (get_next_task tm p)) \<and>
    rev (task_queue tm q) =
    dequeued q tm (GetNext p) @ rev (task_queue (snd (get_next_task tm p)) q)"
proof (cases "initialized tm \<and> task_queue tm p \<noteq> []")
  case False
  with assms show ?thesis by (auto simp: get_next_task_def rpop_def)
next
  case True
  then have ne: "task_queue tm p \<noteq> []" and ini: "initialized tm" by simp_all
  from assms have "last (task_queue tm p) \<in> set (task_queue tm p) \<Longrightarrow> last (task_queue tm p) \<noteq> []"
    by (auto simp: proper_ids_def)
  with ne have l: "last (task_queue tm p) \<noteq> []" by simp
  from ne have "task_queue tm p = butlast (task_queue tm p) @ [last (task_queue tm p)]" by simp
  then have "rev (task_queue tm p) = rev (butlast (task_queue tm p) @ [last (task_queue tm p)])"
    by simp
  then have r: "rev (task_queue tm p) = last (task_queue tm p) # rev (butlast (task_queue tm p))"
    by simp
  have b: "\<And>x. x \<in> set (butlast (task_queue tm p)) \<Longrightarrow> x \<in> set (task_queue tm p)"
    by (rule in_set_butlastD)
  from assms b have pr: "proper_ids (snd (get_next_task tm p))"
    using ne ini by (auto simp: proper_ids_def get_next_task_def rpop_def)
  show ?thesis using pr ne ini l r assms(2) by (auto simp: get_next_task_def rpop_def)
qed

lemma step_fifo:
  assumes "proper_ids tm" and "\<not> decode_responses tm" and "proper_id x"
  shows "proper_ids (step tm x) \<and>
    rev (task_queue tm q) @ enqueued q tm x = dequeued q tm x @ rev (task_queue (step tm x) q)"
proof (cases x)
  case (Create uuid now ty u ps p mr ts)
  with assms create_task_fifo [of tm uuid now ty u ps p mr ts q] show ?thesis by simp
next
  case (Update now tid st pr er rs)
  with assms show ?thesis by (simp add: update_task_status_proper update_task_status_queue)
next
  case (Complete now tid rs)
  with assms show ?thesis
    by (simp add: complete_task_def update_task_status_proper update_task_status_queue)
next
  case (Fail now tid er)
  with assms show ?thesis
    by (simp add: fail_task_def update_task_status_proper update_task_status_queue)
next
  case (Cancel now tid reason)
  with assms show ?thesis
    by (simp add: cancel_task_def update_task_status_proper update_task_status_queue)
next
  case (Retry now tid)
  with assms retry_task_fifo [of tm now tid q] show ?thesis by simp
next
  case (GetNext p)
  with assms get_next_task_fifo [of tm p q] show ?thesis by simp
qed

lemma bytes_client_fifo:
  assumes "proper_ids tm" and "\<not> decode_responses tm" and "list_all proper_id ops"
  shows "rev (task_queue tm q) @ enqueued_by q tm ops =
         dequeued_by q tm ops @ rev (task_queue (run tm ops) q)"
  using assms
proof (induction ops arbitrary: tm)
  case Nil
  then show ?case by simp
next
  case (Cons x xs)
  then have s: "proper_ids (step tm x)"
    and e: "rev (task_queue tm q) @ enqueued q tm x = dequeued q tm x @ rev (task_queue (step tm x) q)"
    using step_fifo [of tm x q] by simp_all
  from Cons.prems have d: "\<not> decode_responses (step tm x)" by (simp add: step_decode_responses)
  from Cons have "list_all proper_id xs" by simp
  with Cons.IH [OF s d] have
    ih: "rev (task_queue (step tm x) q) @ enqueued_by q (step tm x) xs =
         dequeued_by q (step tm x) xs @ rev (task_queue (run (step tm x) xs) q)" by simp
  have "rev (task_queue tm q) @ enqueued_by q tm (x # xs) =
        (rev (task_queue tm q) @ enqueued q tm x) @ enqueued_by q (step tm x) xs" by simp
  also have "\<dots> = dequeued q tm x @ (rev (task_queue (step tm x) q) @ enqueued_by q (step tm x) xs)"
    using e by simp
  also have "\<dots> = dequeued_by q tm (x # xs) @ rev (task_queue (run tm (x # xs)) q)"
    using ih by simp
  finally show ?case .
qed

text \<open>
  Claim C4, at the failing input. The application's manager, started on the empty store,
  runs two creations on tier high, a dequeue, a creation on tier low, a third creation on
  tier high and a second dequeue. The identifiers \<open>a\<close>, \<open>b\<close>, \<open>c\<close> were put on tier high in
  this order; the two dequeues took \<open>a\<close> and \<open>b\<close> off the queue and handed out nothing,
  and a third dequeue takes \<open>c\<close> off and answers \<open>None\<close> as well.
\<close>

theorem dequeue_hands_out_nothing:
  "decode_responses (init_tm :: string task_manager) = True \<and>
   enqueued_by HIGH init_tm ex_interleaved = [''a'', ''b'', ''c''] \<and>
   dequeued_by HIGH init_tm ex_interleaved = [] \<and>
   task_queue (run init_tm ex_interleaved) HIGH = [''c''] \<and>
   fst (get_next_task (run init_tm ex_interleaved) HIGH) = None \<and>
   task_queue (snd (get_next_task (run init_tm ex_interleaved) HIGH)) HIGH = []"
  by (simp add: ex_interleaved_def init_tm_def create_task_def get_next_task_def rpop_def
      lpush_def)

section \<open>Connecting an identity\<close>

text \<open>With the lock free, \<open>disconnect\<close> on its own and \<open>connect\<close> of an identity that
  is not registered both return.\<close>

lemma disconnect_returns:
  assumes "\<not> locked wm" and "active_connections wm user_id' = Some ws"
  shows "disconnect wm user_id' =
    Some (wm\<lparr> closed := closed wm @ [ws],
              active_connections := (active_connections wm)(user_id' := None),
              subscriptions := (subscriptions wm)(user_id' := None),
              connection_metadata := (connection_metadata wm)(user_id' := None) \<rparr>)"
  using assms by (simp add: disconnect_def acquire_def release_def)

lemma connect_fresh_returns:
  assumes "\<not> locked wm" and "user_id' \<notin> dom (active_connections wm)"
  shows "connect wm now user_id' websocket =
    Some (wm\<lparr> active_connections := (active_connections wm)(user_id' \<mapsto> websocket),
              subscriptions := (subscriptions wm)(user_id' \<mapsto> {}),
              connection_metadata := (connection_metadata wm)(user_id' \<mapsto>
                \<lparr> connected_at = now, last_activity = now, message_count = 0 \<rparr>) \<rparr>)"
  using assms by (simp add: connect_def acquire_def release_def)

text \<open>
  Claim C10. When \<open>connect\<close> is called, with the lock free, for an identity that is
  already registered, it takes the lock, and the \<open>disconnect\<close> it then awaits finds the
  lock taken and never gets it; so \<open>connect\<close> does not return, and the new channel is
  never registered.
\<close>

theorem connect_registered_never_returns:
  assumes "\<not> locked wm" and "user_id' \<in> dom (active_connections wm)"
  shows "acquire wm = Some (wm\<lparr> locked := True \<rparr>) \<and>
         disconnect (wm\<lparr> locked := True \<rparr>) user_id' = None \<and>
         connect wm now user_id' websocket = None"
  using assms by (simp add: connect_def disconnect_def acquire_def)

theorem connect_registered_never_returns_witness:
  "\<not> locked wm_u1 \<and> ''u1'' \<in> dom (active_connections wm_u1) \<and>
   disconnect (wm_u1\<lparr> locked := True \<rparr>) ''u1'' = None \<and>
   connect wm_u1 ''2024-01-01T09:30:00'' ''u1'' 2 = None"
proof -
  have l: "\<not> locked wm_u1" by (simp add: wm_u1_def)
  have r: "''u1'' \<in> dom (active_connections wm_u1)" by (simp add: wm_u1_def)
  from connect_registered_never_returns [OF l r, of "''2024-01-01T09:30:00''" 2] l r
  show ?thesis by blast
qed

text \<open>
  Claim C8, at the failing input. User \<open>u1\<close> is connected on channel 1 and the lock is
  free. A second \<open>connect\<close> for \<open>u1\<close>, on channel 2, does not return: channel 1 is not
  closed and channel 2 does not replace it. For comparison, \<open>disconnect\<close> followed by
  \<open>connect\<close>, each as a call of its own, closes channel 1 and registers channel 2.
\<close>

theorem reconnect_never_replaces:
  "active_connections wm_u1 ''u1'' = Some 1 \<and> locked wm_u1 = False \<and>
   connect wm_u1 ''2024-01-01T09:30:00'' ''u1'' 2 = None \<and>
   map_option closed (Option.bind (disconnect wm_u1 ''u1'')
      (\<lambda>wm. connect wm ''2024-01-01T09:30:00'' ''u1'' 2)) = Some [1] \<and>
   map_option (\<lambda>wm. active_connections wm ''u1'') (Option.bind (disconnect wm_u1 ''u1'')
      (\<lambda>wm. connect wm ''2024-01-01T09:30:00'' ''u1'' 2)) = Some (Some 2)"
  by (simp add: wm_u1_def connect_def disconnect_def acquire_def release_def)

end
